theory Spec2Isabelle
  imports Main
begin

section \<open>JavaScript values and strings\<close>

text \<open>
  The value of a term in a translation object (\<open>[key: string]: any\<close>): a literal or a
  formatting function \<open>(...args) => string\<close>. The type parameter is the type of the
  arguments handed to formatting functions. Numbers are modelled by integers. \<open>JObject\<close> is
  an object that is not a function, \<open>JNative name\<close> the built-in function that
  \<open>Object.prototype\<close> holds under \<open>name\<close>.
\<close>

datatype 'a jsval =
    JUndefined
  | JNull
  | JBool bool
  | JNum int
  | JStr string
  | JFun "'a list \<Rightarrow> string"
  | JObject
  | JNative string

text \<open>What \<open>if (v)\<close> and \<open>a && b\<close> test: \<open>undefined\<close>, \<open>null\<close>, \<open>false\<close>, \<open>0\<close> and
  \<open>''\<close> are falsy, every function and every object is truthy.\<close>

fun truthy :: "'a jsval \<Rightarrow> bool" where
  "truthy JUndefined = False"
| "truthy JNull = False"
| "truthy (JBool b) = b"
| "truthy (JNum n) = (n \<noteq> 0)"
| "truthy (JStr s) = (s \<noteq> [])"
| "truthy (JFun f) = True"
| "truthy JObject = True"
| "truthy (JNative n) = True"

text \<open>\<open>a || b\<close> on two strings.\<close>

definition or_str :: "string \<Rightarrow> string \<Rightarrow> string" where
  "or_str a b = (if a = [] then b else a)"

text \<open>\<open>String.prototype.toLowerCase\<close>, on the ASCII letters.\<close>

definition lower_char :: "char \<Rightarrow> char" where
  "lower_char c =
     (case map_of (zip ''ABCDEFGHIJKLMNOPQRSTUVWXYZ'' ''abcdefghijklmnopqrstuvwxyz'') c of
        Some d \<Rightarrow> d
      | None \<Rightarrow> c)"

definition toLowerCase :: "string \<Rightarrow> string" where
  "toLowerCase s = map lower_char s"

text \<open>\<open>lang.replace(/_/g, '-')\<close>.\<close>

definition replace_underscores :: "string \<Rightarrow> string" where
  "replace_underscores s = map (\<lambda>c. if c = CHR ''_'' then CHR ''-'' else c) s"

datatype js_error = RangeError | TypeError

section \<open>Translations and the module state\<close>

datatype text_dir = Ltr | Rtl

fun dir_str :: "text_dir \<Rightarrow> string" where
  "dir_str Ltr = ''ltr''"
| "dir_str Rtl = ''rtl''"

text \<open>
  \<open>interface Translation { $code: string; $name: string; $dir: 'ltr' | 'rtl' }\<close>, extended by
  \<open>DefaultTranslation\<close> with \<open>[key: string]: any\<close>: the three required fields and the
  remaining own properties.
\<close>

record 'a translation =
  tr_code :: string
  tr_name :: string
  tr_dir :: text_dir
  tr_terms :: "string \<rightharpoonup> 'a jsval"

text \<open>
  A translation is a plain object, so a property it does not have itself is looked up in
  \<open>Object.prototype\<close>: the built-in methods, and the accessor \<open>__proto__\<close>, which gives the
  prototype object.
\<close>

definition Object_prototype_methods :: "string list" where
  "Object_prototype_methods =
     [''constructor'', ''hasOwnProperty'', ''isPrototypeOf'', ''propertyIsEnumerable'',
      ''toLocaleString'', ''toString'', ''valueOf'', ''__defineGetter__'', ''__defineSetter__'',
      ''__lookupGetter__'', ''__lookupSetter__'']"

definition object_prototype :: "string \<Rightarrow> 'a jsval option" where
  "object_prototype key =
     (if key \<in> set Object_prototype_methods then Some (JNative key)
      else if key = ''__proto__'' then Some JObject
      else None)"

text \<open>The property read \<open>t[key]\<close>: the own property when there is one (also when its value
  is \<open>undefined\<close>), else the inherited one, else \<open>undefined\<close>.\<close>

definition get_prop :: "'a translation \<Rightarrow> string \<Rightarrow> 'a jsval" where
  "get_prop t key =
     (if key = ''$code'' then JStr (tr_code t)
      else if key = ''$name'' then JStr (tr_name t)
      else if key = ''$dir'' then JStr (dir_str (tr_dir t))
      else (case tr_terms t key of
              Some v \<Rightarrow> v
            | None \<Rightarrow> (case object_prototype key of Some v \<Rightarrow> v | None \<Rightarrow> JUndefined)))"

text \<open>The object spread \<open>{ ...old, ...t }\<close>: a new object, the properties of \<open>t\<close> written
  over those of \<open>old\<close>.\<close>

definition spread :: "'a translation \<Rightarrow> 'a translation \<Rightarrow> 'a translation" where
  "spread old t =
     \<lparr>tr_code = tr_code t, tr_name = tr_name t, tr_dir = tr_dir t,
      tr_terms = tr_terms old ++ tr_terms t\<rparr>"

text \<open>
  The module-level variables (\<open>connectedElements\<close>, \<open>translations\<close>, \<open>fallback\<close>,
  \<open>documentDirection\<close>, \<open>documentLanguage\<close>, \<open>isClient\<close>), the part of the page the module
  reads (\<open>document.documentElement.dir\<close> and \<open>.lang\<close>, \<open>navigator.language\<close>, whether
  \<open>typeof el.requestUpdate === 'function'\<close> for an element), and what the module does to the
  outside: the calls of \<open>el.requestUpdate()\<close> and the lines of \<open>console.error\<close>, oldest
  first. Elements are identified by a number; \<open>connectedElements\<close> is a JavaScript \<open>Set\<close>,
  kept in insertion order. The \<open>Map\<close> of the registered translations is the field
  \<open>translations_map\<close>. Objects are held by value: the module never writes into a
  translation it has been given (a merge builds a new object).
\<close>

record 'a state =
  connectedElements :: "nat list"
  translations_map :: "string \<rightharpoonup> 'a translation"
  fallback :: "'a translation option"
  documentDirection :: string
  documentLanguage :: string
  isClient :: bool
  html_dir :: string
  html_lang :: string
  navigator_language :: string
  has_requestUpdate :: "nat \<Rightarrow> bool"
  requested :: "nat list"
  console :: "string list"

text \<open>The host element of a controller: its identity and its \<open>lang\<close> and \<open>dir\<close> properties
  at the time of the call.\<close>

record host =
  host_id :: nat
  host_lang :: string
  host_dir :: string

section \<open>registerTranslation and update\<close>

definition update :: "'a state \<Rightarrow> 'a state" where
  "update s =
     (let s1 = (if isClient s
                then s\<lparr>documentDirection := or_str (html_dir s) ''ltr'',
                       documentLanguage := or_str (html_lang s) (navigator_language s)\<rparr>
                else s)
      in s1\<lparr>requested := requested s1 @ filter (has_requestUpdate s1) (connectedElements s1)\<rparr>)"

text \<open>The callback of \<open>translation.map\<close> in \<open>registerTranslation\<close>.\<close>

definition register_one :: "'a translation \<Rightarrow> 'a state \<Rightarrow> 'a state" where
  "register_one t s =
     (let code = toLowerCase (tr_code t);
          s1 = (case translations_map s code of
                  Some old \<Rightarrow> s\<lparr>translations_map := (translations_map s)(code \<mapsto> spread old t)\<rparr>
                | None \<Rightarrow> s\<lparr>translations_map := (translations_map s)(code \<mapsto> t)\<rparr>)
      in (case fallback s1 of
            None \<Rightarrow> s1\<lparr>fallback := Some t\<rparr>
          | Some f \<Rightarrow> s1))"

definition registerTranslation :: "'a translation list \<Rightarrow> 'a state \<Rightarrow> 'a state" where
  "registerTranslation ts s = update (fold register_one ts s)"

section \<open>LocalizeController\<close>

definition hostConnected :: "host \<Rightarrow> 'a state \<Rightarrow> 'a state" where
  "hostConnected h s =
     (if host_id h \<in> set (connectedElements s) then s
      else s\<lparr>connectedElements := connectedElements s @ [host_id h]\<rparr>)"

definition hostDisconnected :: "host \<Rightarrow> 'a state \<Rightarrow> 'a state" where
  "hostDisconnected h s = s\<lparr>connectedElements := removeAll (host_id h) (connectedElements s)\<rparr>"

definition dir :: "host \<Rightarrow> 'a state \<Rightarrow> string" where
  "dir h s = toLowerCase (or_str (host_dir h) (documentDirection s))"

definition lang :: "host \<Rightarrow> 'a state \<Rightarrow> string" where
  "lang h s = toLowerCase (or_str (host_lang h) (documentLanguage s))"

text \<open>
  What the code reads of \<open>new Intl.Locale(tag)\<close>: the \<open>language\<close> property and the \<open>region\<close>
  property, which is \<open>undefined\<close> for a tag without region. The constructor belongs to the
  platform: it is a parameter of the functions that call it, \<open>None\<close> standing for the
  \<open>RangeError\<close> it throws on a tag it does not accept.
\<close>

record intl_locale =
  language :: string
  region :: "string option"

type_synonym locale_ctor = "string \<Rightarrow> intl_locale option"

record 'a translation_data =
  td_locale :: intl_locale
  td_language :: string
  td_region :: string
  primary :: "'a translation option"
  secondary :: "'a translation option"

definition getTranslationData ::
  "locale_ctor \<Rightarrow> string \<Rightarrow> 'a state \<Rightarrow> js_error + 'a translation_data" where
  "getTranslationData Locale lang_tag s =
     (case Locale (replace_underscores lang_tag) of
        None \<Rightarrow> Inl RangeError
      | Some loc \<Rightarrow>
          (let lng = toLowerCase (language loc);
               reg = (case region loc of None \<Rightarrow> [] | Some r \<Rightarrow> toLowerCase r)
           in Inr \<lparr>td_locale = loc, td_language = lng, td_region = reg,
                   primary = translations_map s (lng @ ''-'' @ reg),
                   secondary = translations_map s lng\<rparr>))"

text \<open>The test \<open>t && t[key]\<close> on a registry entry that may be missing, and the value it
  guards.\<close>

definition has_term :: "'a translation option \<Rightarrow> string \<Rightarrow> bool" where
  "has_term entry key = (case entry of None \<Rightarrow> False | Some t \<Rightarrow> truthy (get_prop t key))"

definition found_term :: "'a translation option \<Rightarrow> string \<Rightarrow> 'a jsval option" where
  "found_term entry key =
     (case entry of
        None \<Rightarrow> None
      | Some t \<Rightarrow> (if truthy (get_prop t key) then Some (get_prop t key) else None))"

text \<open>
  The end of \<open>term\<close>: a function is called with the arguments, anything else is returned
  as it is. A formatting function of a translation returns its string. A built-in function
  is called as the code calls it, without receiver; what that gives (a value, or the
  \<open>TypeError\<close> of a method that needs its receiver) is the platform's business and a
  parameter here.
\<close>

type_synonym 'a native_call = "string \<Rightarrow> 'a list \<Rightarrow> js_error + 'a jsval"

definition render :: "'a native_call \<Rightarrow> 'a jsval \<Rightarrow> 'a list \<Rightarrow> js_error + 'a jsval" where
  "render Native v args =
     (case v of
        JFun f \<Rightarrow> Inr (JStr (f args))
      | JNative n \<Rightarrow> Native n args
      | _ \<Rightarrow> Inr v)"

record exists_options =
  opt_lang :: "string option"
  opt_includeFallback :: "bool option"

definition LocalizeController_exists ::
  "locale_ctor \<Rightarrow> host \<Rightarrow> string \<Rightarrow> exists_options \<Rightarrow> 'a state \<Rightarrow> (js_error + bool) \<times> 'a state" where
  "LocalizeController_exists Locale h key options s =
     (case getTranslationData Locale
             (case opt_lang options of None \<Rightarrow> lang h s | Some l \<Rightarrow> l) s of
        Inl e \<Rightarrow> (Inl e, s)
      | Inr d \<Rightarrow>
          (let includeFallback = (case opt_includeFallback options of None \<Rightarrow> False | Some b \<Rightarrow> b)
           in (Inr (has_term (primary d) key \<or> has_term (secondary d) key \<or>
                    (includeFallback \<and> has_term (fallback s) key)), s)))"

definition LocalizeController_term ::
  "locale_ctor \<Rightarrow> 'a native_call \<Rightarrow> host \<Rightarrow> string \<Rightarrow> 'a list \<Rightarrow> 'a state \<Rightarrow>
   (js_error + 'a jsval) \<times> 'a state" where
  "LocalizeController_term Locale Native h key args s =
     (case getTranslationData Locale (lang h s) s of
        Inl e \<Rightarrow> (Inl e, s)
      | Inr d \<Rightarrow>
          (case found_term (primary d) key of
             Some v \<Rightarrow> (render Native v args, s)
           | None \<Rightarrow>
               (case found_term (secondary d) key of
                  Some v \<Rightarrow> (render Native v args, s)
                | None \<Rightarrow>
                    (case found_term (fallback s) key of
                       Some v \<Rightarrow> (render Native v args, s)
                     | None \<Rightarrow>
                         (Inr (JStr key),
                          s\<lparr>console := console s @ [''No translation found for: '' @ key]\<rparr>)))))"

section \<open>The top-level term function of the 2.x sources\<close>

text \<open>
  \<open>term(lang, key, ...args)\<close> of \<open>src/index.ts\<close> before the controller took it over: the
  language is the first two characters of the tag, the region-qualified code is the whole
  tag when it is longer than two characters, and no parser is involved.
\<close>

definition toplevel_term ::
  "'a native_call \<Rightarrow> string \<Rightarrow> string \<Rightarrow> 'a list \<Rightarrow> 'a state \<Rightarrow> (js_error + 'a jsval) \<times> 'a state" where
  "toplevel_term Native lang_tag key args s =
     (let code = take 2 (toLowerCase lang_tag);
          subcode = (if length lang_tag > 2 then toLowerCase lang_tag else []);
          primary = translations_map s subcode;
          secondary = translations_map s code
      in (case found_term primary key of
            Some v \<Rightarrow> (render Native v args, s)
          | None \<Rightarrow>
              (case found_term secondary key of
                 Some v \<Rightarrow> (render Native v args, s)
               | None \<Rightarrow>
                   (case found_term (fallback s) key of
                      Some v \<Rightarrow> (render Native v args, s)
                    | None \<Rightarrow>
                        (Inr (JStr key),
                         s\<lparr>console := console s @ [''No translation found for: '' @ key]\<rparr>)))))"

section \<open>Events\<close>

text \<open>
  What can happen to the module, one event at a time on the single thread: a controller's
  host is connected or disconnected, translations are registered, \<open>update\<close> runs (called by
  hand or by the \<open>MutationObserver\<close> on the root element), and the page changes the \<open>lang\<close> or
  \<open>dir\<close> attribute of the root element.
\<close>

datatype 'a event =
    HostConnected host
  | HostDisconnected host
  | RegisterTranslation "'a translation list"
  | Update
  | SetHtmlLang string
  | SetHtmlDir string

fun step :: "'a event \<Rightarrow> 'a state \<Rightarrow> 'a state" where
  "step (HostConnected h) s = hostConnected h s"
| "step (HostDisconnected h) s = hostDisconnected h s"
| "step (RegisterTranslation ts) s = registerTranslation ts s"
| "step Update s = update s"
| "step (SetHtmlLang l) s = s\<lparr>html_lang := l\<rparr>"
| "step (SetHtmlDir d) s = s\<lparr>html_dir := d\<rparr>"

definition run :: "'a event list \<Rightarrow> 'a state \<Rightarrow> 'a state" where
  "run evs s = fold step evs s"

fun connects :: "nat \<Rightarrow> 'a event \<Rightarrow> bool" where
  "connects i (HostConnected h) = (host_id h = i)"
| "connects i e = False"

text \<open>The state of the module when it has just been loaded in a page.\<close>

definition initial_state :: "bool \<Rightarrow> string \<Rightarrow> string \<Rightarrow> string \<Rightarrow> (nat \<Rightarrow> bool) \<Rightarrow> 'a state" where
  "initial_state client hdir hlang nav can_update =
     \<lparr>connectedElements = [], translations_map = Map.empty, fallback = None,
      documentDirection = (if client then or_str hdir ''ltr'' else ''ltr''),
      documentLanguage = (if client then or_str hlang nav else ''en''),
      isClient = client, html_dir = hdir, html_lang = hlang, navigator_language = nav,
      has_requestUpdate = can_update, requested = [], console = []\<rparr>"

section \<open>A reference reading of locale tags\<close>

text \<open>
  The shape of a tag that \<open>new Intl.Locale\<close> accepts, for the examples: subtags separated by
  \<open>-\<close>; a language of 2, 3 or 5 to 8 letters; then an optional script of 4 letters; then an
  optional region of 2 letters or 3 digits; any further subtag has 1 to 8 letters or digits.
  The language is returned in lower case and the region in upper case. The replacement of
  deprecated codes and the finer grammar of variant and extension subtags are not modelled.
\<close>

definition upper_char :: "char \<Rightarrow> char" where
  "upper_char c =
     (case map_of (zip ''abcdefghijklmnopqrstuvwxyz'' ''ABCDEFGHIJKLMNOPQRSTUVWXYZ'') c of
        Some d \<Rightarrow> d
      | None \<Rightarrow> c)"

definition is_letter :: "char \<Rightarrow> bool" where
  "is_letter c = (c \<in> set ''abcdefghijklmnopqrstuvwxyzABCDEFGHIJKLMNOPQRSTUVWXYZ'')"

definition is_digit :: "char \<Rightarrow> bool" where
  "is_digit c = (c \<in> set ''0123456789'')"

fun split_on :: "char \<Rightarrow> string \<Rightarrow> string list" where
  "split_on d [] = [[]]"
| "split_on d (c # cs) =
     (if c = d then [] # split_on d cs
      else (case split_on d cs of [] \<Rightarrow> [[c]] | w # ws \<Rightarrow> (c # w) # ws))"

definition is_language :: "string \<Rightarrow> bool" where
  "is_language w = (list_all is_letter w \<and> length w \<in> {2, 3, 5, 6, 7, 8})"

definition is_script :: "string \<Rightarrow> bool" where
  "is_script w = (list_all is_letter w \<and> length w = 4)"

definition is_region :: "string \<Rightarrow> bool" where
  "is_region w = ((list_all is_letter w \<and> length w = 2) \<or> (list_all is_digit w \<and> length w = 3))"

definition is_subtag :: "string \<Rightarrow> bool" where
  "is_subtag w = (list_all (\<lambda>c. is_letter c \<or> is_digit c) w \<and> 1 \<le> length w \<and> length w \<le> 8)"

definition Intl_Locale :: locale_ctor where
  "Intl_Locale tag =
     (case split_on CHR ''-'' tag of
        [] \<Rightarrow> None
      | l # rest \<Rightarrow>
          (if is_language l then
             (let rest1 = (case rest of [] \<Rightarrow> rest | sc # r \<Rightarrow> if is_script sc then r else rest);
                  reg = (case rest1 of [] \<Rightarrow> None
                         | rg # r \<Rightarrow> if is_region rg then Some (map upper_char rg) else None);
                  rest2 = (case reg of None \<Rightarrow> rest1 | Some x \<Rightarrow> tl rest1)
              in if list_all is_subtag rest2
                 then Some \<lparr>language = map lower_char l, region = reg\<rparr>
                 else None)
           else None))"

section \<open>A reference reading of the built-in methods\<close>

text \<open>
  What the methods of \<open>Object.prototype\<close> give when they are called without receiver and
  with arguments that are strings, for the examples: \<open>toString\<close> names the missing receiver,
  \<open>constructor\<close> (that is \<open>Object\<close>) builds an object, \<open>isPrototypeOf\<close> answers \<open>false\<close> for an
  argument that is not an object, and the others fail on the missing receiver.
\<close>

definition Object_prototype_call :: "string native_call" where
  "Object_prototype_call name args =
     (if name = ''toString'' then Inr (JStr ''[object Undefined]'')
      else if name = ''constructor'' then Inr JObject
      else if name = ''isPrototypeOf'' then Inr (JBool False)
      else Inl TypeError)"

section \<open>Merging, as the description states it\<close>

text \<open>
  The effect of one registration on the registry entry of its code, in the words of the
  description: a code without entry receives the translation, an existing entry receives
  the fields of the translation, the new ones winning. It is compared below with what
  \<open>registerTranslation\<close> computes.
\<close>

fun merge_into :: "'a translation option \<Rightarrow> 'a translation \<Rightarrow> 'a translation option" where
  "merge_into None t = Some t"
| "merge_into (Some old) t = Some (spread old t)"

section \<open>Example page and translations\<close>

text \<open>A page with \<open><html lang="en">\<close> in a browser whose language is \<open>en-US\<close>; every
  element has a \<open>requestUpdate\<close> method. Formatting functions take strings.\<close>

definition page :: "string state" where
  "page = initial_state True [] ''en'' ''en-US'' (\<lambda>i. True)"

definition host_of :: "nat \<Rightarrow> string \<Rightarrow> host" where
  "host_of i l = \<lparr>host_id = i, host_lang = l, host_dir = []\<rparr>"

definition en_hello :: "string translation" where
  "en_hello = \<lparr>tr_code = ''en'', tr_name = ''English'', tr_dir = Ltr,
     tr_terms = [''hello'' \<mapsto> JStr ''Hello'', ''greet'' \<mapsto> JStr ''Hi'',
                 ''upload'' \<mapsto> JStr ''Upload'']\<rparr>"

definition fr_hello :: "string translation" where
  "fr_hello = \<lparr>tr_code = ''fr'', tr_name = ''Francais'', tr_dir = Ltr,
     tr_terms = [''hello'' \<mapsto> JStr ''Bonjour'', ''bonjour'' \<mapsto> JStr ''Bonjour !'',
                 ''greet'' \<mapsto> JStr ''Salut'']\<rparr>"

definition en_gb :: "string translation" where
  "en_gb = \<lparr>tr_code = ''en-GB'', tr_name = ''English (UK)'', tr_dir = Ltr,
     tr_terms = [''greet'' \<mapsto> JStr ''Hiya'']\<rparr>"

definition en_gb_blank :: "string translation" where
  "en_gb_blank = \<lparr>tr_code = ''en-GB'', tr_name = ''English (UK)'', tr_dir = Ltr,
     tr_terms = [''greet'' \<mapsto> JStr []]\<rparr>"

definition en_gb_own_toString :: "string translation" where
  "en_gb_own_toString = \<lparr>tr_code = ''en-GB'', tr_name = ''English (UK)'', tr_dir = Ltr,
     tr_terms = [''toString'' \<mapsto> JStr []]\<rparr>"

definition en_greet :: "string translation" where
  "en_greet = \<lparr>tr_code = ''en'', tr_name = ''English'', tr_dir = Ltr,
     tr_terms = [''greet'' \<mapsto> JStr ''Hi'']\<rparr>"

definition en_bye :: "string translation" where
  "en_bye = \<lparr>tr_code = ''en'', tr_name = ''English'', tr_dir = Ltr,
     tr_terms = [''bye'' \<mapsto> JStr ''Bye'']\<rparr>"

section \<open>Basic facts\<close>

lemmas tag_defs = Intl_Locale_def is_language_def is_script_def is_region_def is_subtag_def
  is_letter_def is_digit_def upper_char_def lower_char_def toLowerCase_def replace_underscores_def

lemmas example_defs = page_def initial_state_def host_of_def en_hello_def fr_hello_def en_gb_def
  en_gb_blank_def en_gb_own_toString_def en_greet_def en_bye_def

lemmas module_defs = registerTranslation_def register_one_def update_def or_str_def spread_def
  lang_def getTranslationData_def LocalizeController_term_def LocalizeController_exists_def
  toplevel_term_def found_term_def has_term_def get_prop_def object_prototype_def Object_prototype_methods_def
  render_def
  Object_prototype_call_def hostConnected_def hostDisconnected_def run_def Let_def

subsection \<open>Lower case and separators\<close>

lemma lower_char_sep [simp]:
  "lower_char CHR ''_'' = CHR ''_''" "lower_char CHR ''-'' = CHR ''-''"
  by (simp_all add: lower_char_def)

lemma lower_char_eq_underscore: "lower_char c = CHR ''_'' \<longleftrightarrow> c = CHR ''_''"
  by (auto simp: lower_char_def split: option.splits if_splits)

lemma replace_lower_replace:
  "replace_underscores (toLowerCase (replace_underscores x)) = replace_underscores (toLowerCase x)"
  by (induction x) (auto simp: replace_underscores_def toLowerCase_def lower_char_eq_underscore)

lemma replace_underscores_idem: "replace_underscores (replace_underscores x) = replace_underscores x"
  by (induction x) (auto simp: replace_underscores_def)

lemma replace_underscores_Nil: "replace_underscores x = [] \<longleftrightarrow> x = []"
  by (simp add: replace_underscores_def)

lemma getTranslationData_replace:
  "getTranslationData L (replace_underscores x) s = getTranslationData L x s"
  by (simp add: getTranslationData_def replace_underscores_idem)

lemma getTranslationData_lower_replace:
  "getTranslationData L (toLowerCase (replace_underscores x)) s =
   getTranslationData L (toLowerCase x) s"
  by (simp add: getTranslationData_def replace_lower_replace)

subsection \<open>What update and registerTranslation leave alone\<close>

lemma update_translations [simp]: "translations_map (update s) = translations_map s"
  and update_fallback [simp]: "fallback (update s) = fallback s"
  and update_connected [simp]: "connectedElements (update s) = connectedElements s"
  by (simp_all add: update_def Let_def)

lemma update_requested:
  "requested (update s) = requested s @ filter (has_requestUpdate s) (connectedElements s)"
  by (simp add: update_def Let_def)

lemma register_one_translations:
  "translations_map (register_one t s) c =
     (if toLowerCase (tr_code t) = c
      then Some (case translations_map s c of None \<Rightarrow> t | Some old \<Rightarrow> spread old t)
      else translations_map s c)"
  by (auto simp: register_one_def Let_def split: option.split)

lemma register_one_fallback:
  "fallback (register_one t s) = (case fallback s of None \<Rightarrow> Some t | Some f \<Rightarrow> Some f)"
  by (simp add: register_one_def Let_def split: option.split)

lemma register_one_other [simp]:
  "connectedElements (register_one t s) = connectedElements s"
  "requested (register_one t s) = requested s"
  "has_requestUpdate (register_one t s) = has_requestUpdate s"
  by (simp_all add: register_one_def Let_def split: option.split)

lemma fold_register_one_other [simp]:
  "connectedElements (fold register_one ts s) = connectedElements s"
  "requested (fold register_one ts s) = requested s"
  "has_requestUpdate (fold register_one ts s) = has_requestUpdate s"
  by (induction ts arbitrary: s) simp_all

lemma register_one_merge_into:
  "translations_map (register_one t s) c =
     (if toLowerCase (tr_code t) = c then merge_into (translations_map s c) t
      else translations_map s c)"
  by (cases "translations_map s c") (simp_all add: register_one_translations)

lemma fold_register_one_translations:
  "translations_map (fold register_one ts s) c =
     foldl merge_into (translations_map s c) (filter (\<lambda>t. toLowerCase (tr_code t) = c) ts)"
  by (induction ts arbitrary: s) (simp_all add: register_one_merge_into)

lemma fold_register_one_fallback_Some:
  "fallback s = Some f \<Longrightarrow> fallback (fold register_one ts s) = Some f"
  by (induction ts arbitrary: s) (simp_all add: register_one_fallback)

lemma registerTranslation_fallback_Some:
  "fallback s = Some f \<Longrightarrow> fallback (registerTranslation ts s) = Some f"
  by (simp add: registerTranslation_def fold_register_one_fallback_Some)

lemma registerTranslation_fallback_first:
  "fallback s = None \<Longrightarrow> fallback (registerTranslation (t # ts) s) = Some t"
  by (simp add: registerTranslation_def fold_register_one_fallback_Some register_one_fallback)

lemma step_fallback_Some: "fallback s = Some f \<Longrightarrow> fallback (step e s) = Some f"
  by (cases e)
     (simp_all add: registerTranslation_fallback_Some hostConnected_def hostDisconnected_def)

lemma run_fallback_Some: "fallback s = Some f \<Longrightarrow> fallback (run evs s) = Some f"
  unfolding run_def by (induction evs arbitrary: s) (simp_all add: step_fallback_Some)

lemma registerTranslation_connected [simp]:
  "connectedElements (registerTranslation ts s) = connectedElements s"
  by (simp add: registerTranslation_def)

lemma registerTranslation_requested:
  "requested (registerTranslation ts s) =
   requested s @ filter (has_requestUpdate s) (connectedElements s)"
  by (simp add: registerTranslation_def update_requested)

subsection \<open>A detached element stays detached\<close>

lemma hostConnected_proj:
  "connectedElements (hostConnected h s) =
     (if host_id h \<in> set (connectedElements s) then connectedElements s
      else connectedElements s @ [host_id h])"
  "requested (hostConnected h s) = requested s"
  "has_requestUpdate (hostConnected h s) = has_requestUpdate s"
  by (simp_all add: hostConnected_def)

lemma hostDisconnected_proj:
  "connectedElements (hostDisconnected h s) = removeAll (host_id h) (connectedElements s)"
  "requested (hostDisconnected h s) = requested s"
  "has_requestUpdate (hostDisconnected h s) = has_requestUpdate s"
  by (simp_all add: hostDisconnected_def)

lemma update_has_requestUpdate [simp]: "has_requestUpdate (update s) = has_requestUpdate s"
  by (simp add: update_def Let_def)

lemma registerTranslation_has_requestUpdate [simp]:
  "has_requestUpdate (registerTranslation ts s) = has_requestUpdate s"
  by (simp add: registerTranslation_def)

lemma page_proj:
  "connectedElements page = []" "requested page = []" "has_requestUpdate page = (\<lambda>i. True)"
  by (simp_all add: page_def initial_state_def)


lemma step_detached:
  assumes "i \<notin> set (connectedElements s)" "\<not> connects i e"
  shows "i \<notin> set (connectedElements (step e s))
       \<and> (\<exists>extra. requested (step e s) = requested s @ extra \<and> i \<notin> set extra)"
  using assms
  by (cases e)
     (auto simp: hostConnected_def hostDisconnected_def registerTranslation_requested
        update_requested)

lemma run_detached:
  assumes "i \<notin> set (connectedElements s)" "\<not> list_ex (connects i) evs"
  shows "i \<notin> set (connectedElements (run evs s))
       \<and> (\<exists>extra. requested (run evs s) = requested s @ extra \<and> i \<notin> set extra)"
  using assms
proof (induction evs arbitrary: s)
  case Nil
  then show ?case by (simp add: run_def)
next
  case (Cons e evs)
  from Cons.prems have ne: "\<not> connects i e" and nes: "\<not> list_ex (connects i) evs"
    by simp_all
  from step_detached [OF Cons.prems(1) ne]
  obtain x where a: "i \<notin> set (connectedElements (step e s))"
    and b: "requested (step e s) = requested s @ x" and c: "i \<notin> set x"
    by blast
  from Cons.IH [OF a nes]
  obtain y where d: "i \<notin> set (connectedElements (run evs (step e s)))"
    and e: "requested (run evs (step e s)) = requested (step e s) @ y" and f: "i \<notin> set y"
    by blast
  have "run (e # evs) s = run evs (step e s)"
    by (simp add: run_def)
  with b c d e f show ?case by auto
qed

subsection \<open>The lookup chain\<close>

lemma has_term_found: "has_term entry key \<longleftrightarrow> found_term entry key \<noteq> None"
  by (simp add: has_term_def found_term_def split: option.split)

lemma found_term_the:
  "has_term entry key \<Longrightarrow> found_term entry key = Some (get_prop (the entry) key)"
  by (cases entry) (simp_all add: has_term_def found_term_def)

lemma found_term_None: "\<not> has_term entry key \<Longrightarrow> found_term entry key = None"
  by (simp add: has_term_found)

lemma found_term_upd:
  assumes "found_term (Some t) key = found_term (Some t') key"
  shows "found_term ((m(c \<mapsto> t)) x) key = found_term ((m(c \<mapsto> t')) x) key"
  using assms by simp

lemma has_term_upd:
  assumes "has_term (Some t) key = has_term (Some t') key"
  shows "has_term ((m(c \<mapsto> t)) x) key = has_term ((m(c \<mapsto> t')) x) key"
  using assms by simp

lemma falsy_found:
  assumes "tr_terms t key = Some v" "\<not> truthy v" "key \<notin> {''$code'', ''$name'', ''$dir''}"
    "key \<notin> set Object_prototype_methods" "key \<noteq> ''__proto__''"
  shows "found_term (Some t) key =
         found_term (Some (t\<lparr>tr_terms := (tr_terms t)(key := None)\<rparr>)) key"
    and "has_term (Some t) key =
         has_term (Some (t\<lparr>tr_terms := (tr_terms t)(key := None)\<rparr>)) key"
  using assms by (simp_all add: found_term_def has_term_def get_prop_def object_prototype_def)

lemma found_term_pick:
  "(case found_term entry key of Some v \<Rightarrow> f v | None \<Rightarrow> r) =
   (case entry of
      Some t \<Rightarrow> if truthy (get_prop t key) then f (get_prop t key) else r
    | None \<Rightarrow> r)"
  by (simp add: found_term_def split: option.split)

lemma has_term_pick:
  "has_term entry key =
   (case entry of Some t \<Rightarrow> truthy (get_prop t key) | None \<Rightarrow> False)"
  by (simp add: has_term_def split: option.split)

lemma term_cong_registry:
  assumes "\<And>x. found_term (m1 x) key = found_term (m2 x) key"
  shows "fst (LocalizeController_term L N h key args (s\<lparr>translations_map := m1\<rparr>)) =
         fst (LocalizeController_term L N h key args (s\<lparr>translations_map := m2\<rparr>))"
    and "console (snd (LocalizeController_term L N h key args (s\<lparr>translations_map := m1\<rparr>))) =
         console (snd (LocalizeController_term L N h key args (s\<lparr>translations_map := m2\<rparr>)))"
    and "fst (toplevel_term N tag key args (s\<lparr>translations_map := m1\<rparr>)) =
         fst (toplevel_term N tag key args (s\<lparr>translations_map := m2\<rparr>))"
  by (simp_all add: LocalizeController_term_def toplevel_term_def getTranslationData_def lang_def
        Let_def assms split: option.split)

lemma term_cong_fallback:
  assumes "found_term (Some f1) key = found_term (Some f2) key"
  shows "fst (LocalizeController_term L N h key args (s\<lparr>fallback := Some f1\<rparr>)) =
         fst (LocalizeController_term L N h key args (s\<lparr>fallback := Some f2\<rparr>))"
    and "console (snd (LocalizeController_term L N h key args (s\<lparr>fallback := Some f1\<rparr>))) =
         console (snd (LocalizeController_term L N h key args (s\<lparr>fallback := Some f2\<rparr>)))"
    and "fst (toplevel_term N tag key args (s\<lparr>fallback := Some f1\<rparr>)) =
         fst (toplevel_term N tag key args (s\<lparr>fallback := Some f2\<rparr>))"
  by (simp_all add: LocalizeController_term_def toplevel_term_def getTranslationData_def lang_def
        Let_def assms split: option.split)

lemma exists_cong_registry:
  assumes "\<And>x. has_term (m1 x) key = has_term (m2 x) key"
  shows "fst (LocalizeController_exists L h key options (s\<lparr>translations_map := m1\<rparr>)) =
         fst (LocalizeController_exists L h key options (s\<lparr>translations_map := m2\<rparr>))"
  by (simp add: LocalizeController_exists_def getTranslationData_def lang_def
        Let_def assms split: option.split)

lemma exists_cong_fallback:
  assumes "has_term (Some f1) key = has_term (Some f2) key"
  shows "fst (LocalizeController_exists L h key options (s\<lparr>fallback := Some f1\<rparr>)) =
         fst (LocalizeController_exists L h key options (s\<lparr>fallback := Some f2\<rparr>))"
  by (simp add: LocalizeController_exists_def getTranslationData_def lang_def
        Let_def assms split: option.split)

lemma falsy_as_absent:
  assumes "tr_terms t key = Some v" and "\<not> truthy v"
    and "key \<notin> {''$code'', ''$name'', ''$dir''}"
    and "key \<notin> set Object_prototype_methods" and "key \<noteq> ''__proto__''"
  shows "(let t' = t\<lparr>tr_terms := (tr_terms t)(key := None)\<rparr>;
              with_value = s\<lparr>translations_map := (translations_map s)(c \<mapsto> t)\<rparr>;
              without = s\<lparr>translations_map := (translations_map s)(c \<mapsto> t')\<rparr>
          in fst (LocalizeController_term L N h key args with_value) =
               fst (LocalizeController_term L N h key args without)
           \<and> console (snd (LocalizeController_term L N h key args with_value)) =
               console (snd (LocalizeController_term L N h key args without))
           \<and> fst (LocalizeController_exists L h key options with_value) =
               fst (LocalizeController_exists L h key options without)
           \<and> fst (toplevel_term N tag key args with_value) =
               fst (toplevel_term N tag key args without)
           \<and> fst (LocalizeController_term L N h key args (s\<lparr>fallback := Some t\<rparr>)) =
               fst (LocalizeController_term L N h key args (s\<lparr>fallback := Some t'\<rparr>))
           \<and> console (snd (LocalizeController_term L N h key args (s\<lparr>fallback := Some t\<rparr>))) =
               console (snd (LocalizeController_term L N h key args (s\<lparr>fallback := Some t'\<rparr>)))
           \<and> fst (LocalizeController_exists L h key options (s\<lparr>fallback := Some t\<rparr>)) =
               fst (LocalizeController_exists L h key options (s\<lparr>fallback := Some t'\<rparr>))
           \<and> fst (toplevel_term N tag key args (s\<lparr>fallback := Some t\<rparr>)) =
               fst (toplevel_term N tag key args (s\<lparr>fallback := Some t'\<rparr>)))"
proof -
  note f = falsy_found [OF assms]
  have r: "\<And>m x. found_term ((m(c \<mapsto> t)) x) key =
                 found_term ((m(c \<mapsto> t\<lparr>tr_terms := (tr_terms t)(key := None)\<rparr>)) x) key"
    by (rule found_term_upd) (rule f(1))
  have e: "\<And>m x. has_term ((m(c \<mapsto> t)) x) key =
                 has_term ((m(c \<mapsto> t\<lparr>tr_terms := (tr_terms t)(key := None)\<rparr>)) x) key"
    by (rule has_term_upd) (rule f(2))
  show ?thesis
    unfolding Let_def
    by (intro conjI term_cong_registry term_cong_fallback exists_cong_registry
          exists_cong_fallback r e f)
qed

lemma falls_through:
  assumes "L (replace_underscores (lang h s)) = Some loc"
  shows "(let G = toLowerCase (language loc);
          R = (case region loc of None \<Rightarrow> [] | Some r \<Rightarrow> toLowerCase r);
          regional = translations_map s (G @ ''-'' @ R);
          base = translations_map s G;
          truthy_in = (\<lambda>source. case source of
                         Some t \<Rightarrow> truthy (get_prop t key) | None \<Rightarrow> False);
          pick = (\<lambda>source next.
                    case source of
                      Some t \<Rightarrow> if truthy (get_prop t key)
                                then render N (get_prop t key) args else next
                    | None \<Rightarrow> next);
          result = fst (LocalizeController_term L N h key args s);
          found = fst (LocalizeController_exists L h key
                         \<lparr>opt_lang = None, opt_includeFallback = incl\<rparr> s)
      in (regional \<noteq> None \<and> \<not> truthy_in regional \<longrightarrow>
            result = pick base (pick (fallback s) (Inr (JStr key)))
            \<and> found = Inr (truthy_in base \<or> (incl = Some True \<and> truthy_in (fallback s))))
       \<and> (\<not> truthy_in regional \<and> base \<noteq> None \<and> \<not> truthy_in base \<longrightarrow>
            result = pick (fallback s) (Inr (JStr key))
            \<and> found = Inr (incl = Some True \<and> truthy_in (fallback s)))
       \<and> (\<not> truthy_in regional \<and> \<not> truthy_in base
            \<and> fallback s \<noteq> None \<and> \<not> truthy_in (fallback s) \<longrightarrow>
            result = Inr (JStr key) \<and> found = Inr False))"
  using assms
  by (auto simp: LocalizeController_term_def LocalizeController_exists_def getTranslationData_def
        Let_def found_term_pick has_term_pick split: option.split)

section \<open>The claims\<close>

text \<open>
  C6. Underscores and hyphens are interchangeable in a locale tag: a host whose \<open>lang\<close> is a
  tag and a host whose \<open>lang\<close> is the same tag with every underscore replaced by a hyphen get
  the same result and effects from \<open>term\<close> and from \<open>exists\<close>, as do the two spellings given in
  the \<open>lang\<close> option of \<open>exists\<close>; the registry lookup of a tag is the lookup of its hyphenated
  spelling. This holds for every tag, also one the parser rejects.
\<close>

theorem underscore_hyphen_interchangeable:
  "LocalizeController_term L N (h\<lparr>host_lang := replace_underscores tag\<rparr>) key args s =
     LocalizeController_term L N (h\<lparr>host_lang := tag\<rparr>) key args s
   \<and> LocalizeController_exists L (h\<lparr>host_lang := replace_underscores tag\<rparr>) key options s =
     LocalizeController_exists L (h\<lparr>host_lang := tag\<rparr>) key options s
   \<and> LocalizeController_exists L h key (options\<lparr>opt_lang := Some (replace_underscores tag)\<rparr>) s =
     LocalizeController_exists L h key (options\<lparr>opt_lang := Some tag\<rparr>) s
   \<and> getTranslationData L (replace_underscores tag) s = getTranslationData L tag s"
proof -
  have l: "getTranslationData L (lang (h\<lparr>host_lang := replace_underscores tag\<rparr>) s) s =
           getTranslationData L (lang (h\<lparr>host_lang := tag\<rparr>) s) s"
    by (cases "tag = []")
       (simp_all add: lang_def or_str_def replace_underscores_Nil getTranslationData_lower_replace)
  have e1: "LocalizeController_exists L (h\<lparr>host_lang := replace_underscores tag\<rparr>) key options s =
     LocalizeController_exists L (h\<lparr>host_lang := tag\<rparr>) key options s"
    using l by (cases "opt_lang options") (simp_all add: LocalizeController_exists_def)
  have e2: "LocalizeController_exists L h key (options\<lparr>opt_lang := Some (replace_underscores tag)\<rparr>) s =
     LocalizeController_exists L h key (options\<lparr>opt_lang := Some tag\<rparr>) s"
    by (simp add: LocalizeController_exists_def getTranslationData_replace split: sum.split)
  have t: "LocalizeController_term L N (h\<lparr>host_lang := replace_underscores tag\<rparr>) key args s =
     LocalizeController_term L N (h\<lparr>host_lang := tag\<rparr>) key args s"
    using l by (simp add: LocalizeController_term_def)
  show ?thesis
    using t e1 e2 by (simp add: getTranslationData_replace)
qed

theorem underscore_hyphen_interchangeable_witness:
  "LocalizeController_term Intl_Locale Object_prototype_call (host_of 1 ''en_US'') ''hello'' []
       (registerTranslation [en_hello] page) =
     LocalizeController_term Intl_Locale Object_prototype_call (host_of 1 ''en-US'') ''hello'' []
       (registerTranslation [en_hello] page)
   \<and> fst (LocalizeController_term Intl_Locale Object_prototype_call (host_of 1 ''en_US'') ''hello'' []
       (registerTranslation [en_hello] page)) = Inr (JStr ''Hello'')"
  using underscore_hyphen_interchangeable
    [where L = Intl_Locale and N = Object_prototype_call and h = "host_of 1 []"
       and tag = "''en_US''" and key = "''hello''"
       and args = "[]" and s = "registerTranslation [en_hello] page"]
  by (simp add: example_defs module_defs tag_defs)

text \<open>
  C1, as amended. For a tag that the parser reads as language \<open>G\<close> and region \<open>R\<close> (empty when
  the tag has none), \<open>term\<close> takes the first of three sources in which the property read of
  the key gives a truthy value: the registry entry of \<open>G-R\<close>, then the entry of \<open>G\<close>, then the
  fallback translation. The value is returned as it is, or called with the arguments when
  it is a function, and the outcome of the call is the outcome of \<open>term\<close>. A source that
  holds the key with a falsy value is passed over; when no source gives a truthy value the
  key is returned. The property read is the one of the language: a key that a translation
  does not hold itself and \<open>Object.prototype\<close> does is found in the first source that exists.
\<close>

theorem term_tier_order:
  assumes "L (replace_underscores (lang h s)) = Some loc"
  shows "fst (LocalizeController_term L N h key args s) =
     (let G = toLowerCase (language loc);
          R = (case region loc of None \<Rightarrow> [] | Some r \<Rightarrow> toLowerCase r);
          pick = (\<lambda>source next.
                    case source of
                      Some t \<Rightarrow> if truthy (get_prop t key)
                                then render N (get_prop t key) args else next
                    | None \<Rightarrow> next)
      in pick (translations_map s (G @ ''-'' @ R))
           (pick (translations_map s G)
              (pick (fallback s) (Inr (JStr key)))))"
  using assms
  by (simp add: LocalizeController_term_def getTranslationData_def Let_def found_term_pick
        split: option.split)

text \<open>With \<open>fr\<close> registered first, then \<open>en\<close> and \<open>en-GB\<close>, a host in \<open>en-GB\<close> gets \<open>greet\<close> from
  \<open>en-GB\<close>, although \<open>en\<close> defines it, \<open>hello\<close> from \<open>en\<close>, although the fallback \<open>fr\<close> defines it,
  and \<open>bonjour\<close> from the fallback. The inherited \<open>toString\<close> is found in \<open>en-GB\<close> and called,
  and the inherited \<open>valueOf\<close> fails on its missing receiver.\<close>

theorem term_tier_order_witness:
  "Intl_Locale (replace_underscores
       (lang (host_of 1 ''en-GB'') (registerTranslation [fr_hello, en_hello, en_gb] page))) =
     Some \<lparr>language = ''en'', region = Some ''GB''\<rparr>
   \<and> fst (LocalizeController_term Intl_Locale Object_prototype_call (host_of 1 ''en-GB'')
            ''greet'' [] (registerTranslation [fr_hello, en_hello, en_gb] page)) =
       Inr (JStr ''Hiya'')
   \<and> fst (LocalizeController_term Intl_Locale Object_prototype_call (host_of 1 ''en-GB'')
            ''hello'' [] (registerTranslation [fr_hello, en_hello, en_gb] page)) =
       Inr (JStr ''Hello'')
   \<and> fst (LocalizeController_term Intl_Locale Object_prototype_call (host_of 1 ''en-GB'')
            ''bonjour'' [] (registerTranslation [fr_hello, en_hello, en_gb] page)) =
       Inr (JStr ''Bonjour !'')
   \<and> fst (LocalizeController_term Intl_Locale Object_prototype_call (host_of 1 ''en-GB'')
            ''toString'' [] (registerTranslation [fr_hello, en_hello, en_gb] page)) =
       Inr (JStr ''[object Undefined]'')
   \<and> fst (LocalizeController_term Intl_Locale Object_prototype_call (host_of 1 ''en-GB'')
            ''valueOf'' [] (registerTranslation [fr_hello, en_hello, en_gb] page)) =
       Inl TypeError"
proof -
  have p: "Intl_Locale (replace_underscores
       (lang (host_of 1 ''en-GB'') (registerTranslation [fr_hello, en_hello, en_gb] page))) =
     Some \<lparr>language = ''en'', region = Some ''GB''\<rparr>"
    by (simp add: example_defs module_defs tag_defs)
  have r: "translations_map (registerTranslation [fr_hello, en_hello, en_gb] page) =
      [''fr'' \<mapsto> fr_hello, ''en'' \<mapsto> en_hello, ''en-gb'' \<mapsto> en_gb]"
    and f: "fallback (registerTranslation [fr_hello, en_hello, en_gb] page) = Some fr_hello"
    by (simp_all add: example_defs module_defs tag_defs)
  note t = term_tier_order [where L = Intl_Locale and N = Object_prototype_call
        and h = "host_of 1 ''en-GB''"
        and s = "registerTranslation [fr_hello, en_hello, en_gb] page" and args = "[]", OF p]
  have "fst (LocalizeController_term Intl_Locale Object_prototype_call (host_of 1 ''en-GB'')
            ''greet'' [] (registerTranslation [fr_hello, en_hello, en_gb] page)) =
       Inr (JStr ''Hiya'')"
    and "fst (LocalizeController_term Intl_Locale Object_prototype_call (host_of 1 ''en-GB'')
            ''hello'' [] (registerTranslation [fr_hello, en_hello, en_gb] page)) =
       Inr (JStr ''Hello'')"
    and "fst (LocalizeController_term Intl_Locale Object_prototype_call (host_of 1 ''en-GB'')
            ''bonjour'' [] (registerTranslation [fr_hello, en_hello, en_gb] page)) =
       Inr (JStr ''Bonjour !'')"
    and "fst (LocalizeController_term Intl_Locale Object_prototype_call (host_of 1 ''en-GB'')
            ''toString'' [] (registerTranslation [fr_hello, en_hello, en_gb] page)) =
       Inr (JStr ''[object Undefined]'')"
    and "fst (LocalizeController_term Intl_Locale Object_prototype_call (host_of 1 ''en-GB'')
            ''valueOf'' [] (registerTranslation [fr_hello, en_hello, en_gb] page)) =
       Inl TypeError"
    unfolding t r f
    by (simp_all add: Let_def toLowerCase_def lower_char_def get_prop_def object_prototype_def
          Object_prototype_methods_def render_def Object_prototype_call_def
          en_hello_def en_gb_def fr_hello_def)
  with p show ?thesis by simp
qed

text \<open>The claim as it is written fails where the entry of \<open>G-R\<close> defines the key with the
  empty string: the entry of \<open>en-GB\<close> defines \<open>greet\<close> as \<open>''\<close>, and \<open>term\<close> returns the \<open>Hi\<close> of
  \<open>en\<close>.\<close>

theorem term_tier_order_counterexample:
  "translations_map (registerTranslation [en_hello, en_gb_blank] page) ''en-gb'' = Some en_gb_blank
   \<and> tr_terms en_gb_blank ''greet'' = Some (JStr [])
   \<and> Intl_Locale (replace_underscores
        (lang (host_of 1 ''en-GB'') (registerTranslation [en_hello, en_gb_blank] page))) =
       Some \<lparr>language = ''en'', region = Some ''GB''\<rparr>
   \<and> fst (LocalizeController_term Intl_Locale Object_prototype_call (host_of 1 ''en-GB'')
            ''greet'' [] (registerTranslation [en_hello, en_gb_blank] page)) = Inr (JStr ''Hi'')
   \<and> fst (LocalizeController_term Intl_Locale Object_prototype_call (host_of 1 ''en-GB'')
            ''greet'' [] (registerTranslation [en_hello, en_gb_blank] page)) \<noteq> Inr (JStr [])"
  by (simp add: example_defs module_defs tag_defs)

text \<open>
  C2. \<open>registerTranslation\<close> merges on duplicate codes. After a call with any list of
  translations, the registry entry of a code is what results from taking the translations
  of the call with that lower-cased code, in order, and merging each into the entry: the
  first one is inserted when the code had no entry, every other one is spread over the
  entry, and in a spread the fields of the new translation win and the other fields of the
  old entry stay. Entries of other codes are unchanged (their list is empty).
\<close>

theorem registerTranslation_merges:
  "translations_map (registerTranslation ts s) c =
     foldl merge_into (translations_map s c) (filter (\<lambda>t. toLowerCase (tr_code t) = c) ts)
   \<and> tr_terms (spread old t) key =
       (case tr_terms t key of Some v \<Rightarrow> Some v | None \<Rightarrow> tr_terms old key)
   \<and> tr_code (spread old t) = tr_code t
   \<and> tr_name (spread old t) = tr_name t
   \<and> tr_dir (spread old t) = tr_dir t"
  by (simp add: registerTranslation_def fold_register_one_translations spread_def map_add_def)

text \<open>Registering \<open>{$code: 'en', greet: 'Hi'}\<close> and then \<open>{$code: 'en', bye: 'Bye'}\<close> leaves an
  \<open>en\<close> entry with both terms.\<close>

theorem registerTranslation_merges_witness:
  "(case translations_map (registerTranslation [en_bye] (registerTranslation [en_greet] page)) ''en'' of
      None \<Rightarrow> False
    | Some e \<Rightarrow> get_prop e ''greet'' = JStr ''Hi'' \<and> get_prop e ''bye'' = JStr ''Bye'')"
  using registerTranslation_merges
    [where ts = "[en_bye]" and s = "registerTranslation [en_greet] page" and c = "''en''"]
    registerTranslation_merges [where ts = "[en_greet]" and s = page and c = "''en''"]
  by (simp add: example_defs module_defs tag_defs)

text \<open>
  C3, as amended. A missing term does not make \<open>term\<close> fail, provided the parser accepts the
  tag: when the tag is read as language \<open>G\<close> and region \<open>R\<close> and the property read of the key
  gives a truthy value neither in the entry of \<open>G-R\<close>, nor in the entry of \<open>G\<close>, nor in the
  fallback, \<open>term\<close> writes one line to \<open>console.error\<close> and returns the key. The top-level
  \<open>term\<close> of the 2.x sources, which cuts the tag instead of parsing it, does so for every
  tag.
\<close>

theorem missing_term_returns_key:
  "(L (replace_underscores (lang h s)) = Some loc
      \<and> \<not> has_term (translations_map s (toLowerCase (language loc) @ ''-'' @
                      (case region loc of None \<Rightarrow> [] | Some r \<Rightarrow> toLowerCase r))) key
      \<and> \<not> has_term (translations_map s (toLowerCase (language loc))) key
      \<and> \<not> has_term (fallback s) key
    \<longrightarrow> LocalizeController_term L N h key args s =
          (Inr (JStr key), s\<lparr>console := console s @ [''No translation found for: '' @ key]\<rparr>))
   \<and> (\<not> has_term (translations_map s (if length tag > 2 then toLowerCase tag else [])) key
      \<and> \<not> has_term (translations_map s (take 2 (toLowerCase tag))) key
      \<and> \<not> has_term (fallback s) key
    \<longrightarrow> toplevel_term N tag key args s =
          (Inr (JStr key), s\<lparr>console := console s @ [''No translation found for: '' @ key]\<rparr>))"
  by (simp add: LocalizeController_term_def toplevel_term_def getTranslationData_def Let_def
        found_term_None)

text \<open>A host in \<open>xx\<close> asking for \<open>nonexistent\<close> when only \<open>en\<close> is registered. The key
  \<open>toString\<close> is not missing there: the fallback inherits it.\<close>

theorem missing_term_returns_key_witness:
  "fst (LocalizeController_term Intl_Locale Object_prototype_call (host_of 1 ''xx'')
          ''nonexistent'' [] (registerTranslation [en_hello] page)) = Inr (JStr ''nonexistent'')
   \<and> console (snd (LocalizeController_term Intl_Locale Object_prototype_call (host_of 1 ''xx'')
          ''nonexistent'' [] (registerTranslation [en_hello] page))) =
       [''No translation found for: nonexistent'']
   \<and> fst (toplevel_term Object_prototype_call ''xx'' ''nonexistent'' []
          (registerTranslation [en_hello] page)) = Inr (JStr ''nonexistent'')
   \<and> has_term (fallback (registerTranslation [en_hello] page)) ''toString''
   \<and> fst (LocalizeController_term Intl_Locale Object_prototype_call (host_of 1 ''xx'')
          ''toString'' [] (registerTranslation [en_hello] page)) = Inr (JStr ''[object Undefined]'')"
proof -
  have p: "Intl_Locale (replace_underscores
       (lang (host_of 1 ''xx'') (registerTranslation [en_hello] page))) =
     Some \<lparr>language = ''xx'', region = None\<rparr>"
    by (simp add: example_defs module_defs tag_defs)
  have n: "\<not> has_term (translations_map (registerTranslation [en_hello] page) ''xx-'') ''nonexistent''"
    "\<not> has_term (translations_map (registerTranslation [en_hello] page) ''xx'') ''nonexistent''"
    "\<not> has_term (translations_map (registerTranslation [en_hello] page) []) ''nonexistent''"
    "\<not> has_term (fallback (registerTranslation [en_hello] page)) ''nonexistent''"
    by (simp_all add: example_defs module_defs tag_defs)
  from missing_term_returns_key
    [where L = Intl_Locale and N = Object_prototype_call and h = "host_of 1 ''xx''"
       and key = "''nonexistent''"
       and s = "registerTranslation [en_hello] page" and args = "[]" and tag = "''xx''"
       and loc = "\<lparr>language = ''xx'', region = None\<rparr>"]
    p n
  have "LocalizeController_term Intl_Locale Object_prototype_call (host_of 1 ''xx'')
          ''nonexistent'' [] (registerTranslation [en_hello] page) =
        (Inr (JStr ''nonexistent''), (registerTranslation [en_hello] page)
           \<lparr>console := console (registerTranslation [en_hello] page) @
              [''No translation found for: '' @ ''nonexistent'']\<rparr>)"
    and "toplevel_term Object_prototype_call ''xx'' ''nonexistent'' []
          (registerTranslation [en_hello] page) =
        (Inr (JStr ''nonexistent''), (registerTranslation [en_hello] page)
           \<lparr>console := console (registerTranslation [en_hello] page) @
              [''No translation found for: '' @ ''nonexistent'']\<rparr>)"
    by (simp_all add: toLowerCase_def lower_char_def)
  then show ?thesis
    by (simp add: example_defs module_defs tag_defs)
qed

text \<open>The claim as it is written, for every tag, fails on a tag the parser rejects: with
  \<open>lang="en US"\<close> on the host and nothing registered, no source holds \<open>nonexistent\<close>, and
  \<open>term\<close> fails with a \<open>RangeError\<close> instead of returning the key.\<close>

theorem missing_term_returns_key_counterexample:
  "\<not> has_term (fallback page) ''nonexistent''
   \<and> translations_map page = Map.empty
   \<and> LocalizeController_term Intl_Locale Object_prototype_call (host_of 1 ''en US'')
        ''nonexistent'' [] page = (Inl RangeError, page)
   \<and> fst (LocalizeController_term Intl_Locale Object_prototype_call (host_of 1 ''en US'')
        ''nonexistent'' [] page) \<noteq> Inr (JStr ''nonexistent'')"
  by (simp add: example_defs module_defs tag_defs)

text \<open>
  C4. The fallback is the first translation of the first call of \<open>registerTranslation\<close> that
  passes one, and nothing that happens afterwards changes it: not another registration, of
  the same code or of another, nor an update, nor a host that connects or disconnects, nor
  a change of the root element's attributes.
\<close>

theorem fallback_fixed:
  assumes "fallback s = None"
  shows "fallback (run evs (registerTranslation (t # ts) s)) = Some t"
  using assms by (simp add: run_fallback_Some registerTranslation_fallback_first)

theorem fallback_fixed_witness:
  "fallback page = None
   \<and> fallback (run [RegisterTranslation [en_bye], HostConnected (host_of 1 ''fr''),
                    RegisterTranslation [fr_hello, en_hello], SetHtmlLang ''fr'', Update]
              (registerTranslation [en_greet, en_gb] page)) = Some en_greet"
proof -
  have n: "fallback page = None"
    by (simp add: example_defs)
  from fallback_fixed [OF n] n show ?thesis
    by simp
qed

text \<open>
  C5, as amended. A tag that the parser rejects, once its underscores are hyphens, is not
  degraded to a language: \<open>term\<close> and \<open>exists\<close> fail with the parser's \<open>RangeError\<close>, whatever
  the registry and the fallback hold, and leave the module as it was.
\<close>

theorem malformed_tag_raises:
  "(L (replace_underscores (lang h s)) = None
      \<longrightarrow> LocalizeController_term L N h key args s = (Inl RangeError, s))
   \<and> (L (replace_underscores (case opt_lang options of None \<Rightarrow> lang h s | Some l \<Rightarrow> l)) = None
      \<longrightarrow> LocalizeController_exists L h key options s = (Inl RangeError, s))"
  by (simp add: LocalizeController_term_def LocalizeController_exists_def getTranslationData_def
        Let_def split: option.split)

theorem malformed_tag_raises_witness:
  "Intl_Locale (replace_underscores (lang (host_of 1 ''e'') (registerTranslation [en_hello] page))) = None
   \<and> LocalizeController_term Intl_Locale Object_prototype_call (host_of 1 ''e'') ''hello'' []
       (registerTranslation [en_hello] page) = (Inl RangeError, registerTranslation [en_hello] page)
   \<and> LocalizeController_exists Intl_Locale (host_of 1 ''e'') ''hello''
       \<lparr>opt_lang = None, opt_includeFallback = Some True\<rparr>
       (registerTranslation [en_hello] page) = (Inl RangeError, registerTranslation [en_hello] page)"
proof -
  have p: "Intl_Locale (replace_underscores
      (lang (host_of 1 ''e'') (registerTranslation [en_hello] page))) = None"
    by (simp add: example_defs module_defs tag_defs)
  from malformed_tag_raises
    [where L = Intl_Locale and N = Object_prototype_call and h = "host_of 1 ''e''"
       and key = "''hello''" and args = "[]"
       and s = "registerTranslation [en_hello] page"
       and options = "\<lparr>opt_lang = None, opt_includeFallback = Some True\<rparr>"]
    p
  show ?thesis
    by simp
qed

text \<open>The claim as it is written fails on \<open>en.US\<close>, a tag with an unexpected separator: with
  \<open>en\<close> registered, which is also the fallback and defines \<open>hello\<close>, a degraded lookup would
  find the term, and \<open>term\<close> and \<open>exists\<close> fail.\<close>

theorem malformed_tag_raises_counterexample:
  "has_term (fallback (registerTranslation [en_hello] page)) ''hello''
   \<and> fst (LocalizeController_term Intl_Locale Object_prototype_call (host_of 1 ''en.US'')
       ''hello'' [] (registerTranslation [en_hello] page)) = Inl RangeError
   \<and> fst (LocalizeController_exists Intl_Locale (host_of 1 ''en.US'') ''hello''
       \<lparr>opt_lang = None, opt_includeFallback = Some True\<rparr>
       (registerTranslation [en_hello] page)) = Inl RangeError"
  by (simp add: example_defs module_defs tag_defs)

text \<open>
  C7. The effective locale of a consumer is its own \<open>lang\<close> when that is not empty and the
  document language of the module otherwise, in lower case either way. A host without
  \<open>lang\<close> gets from \<open>term\<close> exactly what a host whose \<open>lang\<close> is the document language gets, and
  for a host with a \<open>lang\<close> of its own the result of \<open>term\<close> does not depend on the document
  language.
\<close>

theorem effective_locale:
  "lang h s = toLowerCase (if host_lang h \<noteq> [] then host_lang h else documentLanguage s)
   \<and> LocalizeController_term L N (h\<lparr>host_lang := []\<rparr>) key args s =
     LocalizeController_term L N (h\<lparr>host_lang := documentLanguage s\<rparr>) key args s
   \<and> (host_lang h \<noteq> [] \<longrightarrow>
        fst (LocalizeController_term L N h key args (s\<lparr>documentLanguage := d\<rparr>)) =
        fst (LocalizeController_term L N h key args s))"
  by (simp add: lang_def or_str_def LocalizeController_term_def getTranslationData_def Let_def
        split: option.split)

text \<open>On the English page with \<open>en\<close> and \<open>fr\<close> registered, a host with \<open>lang="fr"\<close> is answered
  in French; once its \<open>lang\<close> is cleared it is answered in English, and in French again
  when the document language is \<open>fr\<close>.\<close>

theorem effective_locale_witness:
  "documentLanguage (registerTranslation [en_hello, fr_hello] page) = ''en''
   \<and> lang (host_of 1 ''FR'') (registerTranslation [en_hello, fr_hello] page) = ''fr''
   \<and> fst (LocalizeController_term Intl_Locale Object_prototype_call (host_of 1 ''fr'') ''hello'' []
        (registerTranslation [en_hello, fr_hello] page)) = Inr (JStr ''Bonjour'')
   \<and> fst (LocalizeController_term Intl_Locale Object_prototype_call (host_of 1 ''fr'') ''hello'' []
        ((registerTranslation [en_hello, fr_hello] page)\<lparr>documentLanguage := ''de''\<rparr>)) =
       Inr (JStr ''Bonjour'')
   \<and> lang (host_of 1 []) (registerTranslation [en_hello, fr_hello] page) = ''en''
   \<and> fst (LocalizeController_term Intl_Locale Object_prototype_call (host_of 1 []) ''hello'' []
        (registerTranslation [en_hello, fr_hello] page)) = Inr (JStr ''Hello'')
   \<and> fst (LocalizeController_term Intl_Locale Object_prototype_call (host_of 1 []) ''hello'' []
        (update ((registerTranslation [en_hello, fr_hello] page)\<lparr>html_lang := ''fr''\<rparr>))) =
       Inr (JStr ''Bonjour'')"
proof -
  have o: "host_lang (host_of 1 ''fr'') \<noteq> []"
    by (simp add: host_of_def)
  from effective_locale
    [where L = Intl_Locale and N = Object_prototype_call and h = "host_of 1 ''fr''" and key = "''hello''" and args = "[]"
       and s = "registerTranslation [en_hello, fr_hello] page" and d = "''de''"]
    o
  have "fst (LocalizeController_term Intl_Locale Object_prototype_call (host_of 1 ''fr'') ''hello'' []
        ((registerTranslation [en_hello, fr_hello] page)\<lparr>documentLanguage := ''de''\<rparr>)) =
     fst (LocalizeController_term Intl_Locale Object_prototype_call (host_of 1 ''fr'') ''hello'' []
        (registerTranslation [en_hello, fr_hello] page))"
    by simp
  then show ?thesis
    by (simp add: example_defs module_defs tag_defs)
qed

text \<open>
  C8, as amended. For a tag that the parser accepts, \<open>exists\<close> answers whether the property
  read of the key gives a truthy value in the entry of \<open>G-R\<close> or in the entry of \<open>G\<close>, which it
  looks at in every call, or in the fallback, which it looks at only when the option
  \<open>includeFallback\<close> is given and true; the tag is the \<open>lang\<close> option when given and the
  effective locale otherwise. For a tag that the parser rejects it gives no answer and
  fails with the parser's \<open>RangeError\<close>. Either way it changes nothing: the module state
  after the call is the state before it.
\<close>

theorem exists_tiers:
  "LocalizeController_exists L h key options s =
     ((case L (replace_underscores (case opt_lang options of None \<Rightarrow> lang h s | Some l \<Rightarrow> l)) of
         None \<Rightarrow> Inl RangeError
       | Some loc \<Rightarrow>
           (let truthy_in = (\<lambda>source. case source of
                               Some t \<Rightarrow> truthy (get_prop t key) | None \<Rightarrow> False)
            in Inr (truthy_in (translations_map s (toLowerCase (language loc) @ ''-'' @
                      (case region loc of None \<Rightarrow> [] | Some r \<Rightarrow> toLowerCase r)))
                    \<or> truthy_in (translations_map s (toLowerCase (language loc)))
                    \<or> (opt_includeFallback options = Some True \<and> truthy_in (fallback s))))),
      s)"
  by (simp add: LocalizeController_exists_def getTranslationData_def Let_def has_term_pick
        split: option.split)

text \<open>With \<open>en\<close> (the fallback) and \<open>fr\<close> registered: \<open>upload\<close>, which only \<open>en\<close> has, exists for a
  French host only with the fallback included; \<open>hello\<close> exists for it anyway, and so does the
  inherited \<open>toString\<close>.\<close>

theorem exists_tiers_witness:
  "LocalizeController_exists Intl_Locale (host_of 1 ''fr'') ''upload''
       \<lparr>opt_lang = None, opt_includeFallback = None\<rparr>
       (registerTranslation [en_hello, fr_hello] page) =
     (Inr False, registerTranslation [en_hello, fr_hello] page)
   \<and> LocalizeController_exists Intl_Locale (host_of 1 ''fr'') ''upload''
       \<lparr>opt_lang = None, opt_includeFallback = Some True\<rparr>
       (registerTranslation [en_hello, fr_hello] page) =
     (Inr True, registerTranslation [en_hello, fr_hello] page)
   \<and> LocalizeController_exists Intl_Locale (host_of 1 ''fr'') ''hello''
       \<lparr>opt_lang = None, opt_includeFallback = Some False\<rparr>
       (registerTranslation [en_hello, fr_hello] page) =
     (Inr True, registerTranslation [en_hello, fr_hello] page)
   \<and> LocalizeController_exists Intl_Locale (host_of 1 ''fr'') ''upload''
       \<lparr>opt_lang = Some ''en-GB'', opt_includeFallback = None\<rparr>
       (registerTranslation [en_hello, fr_hello] page) =
     (Inr True, registerTranslation [en_hello, fr_hello] page)
   \<and> LocalizeController_exists Intl_Locale (host_of 1 ''fr'') ''toString''
       \<lparr>opt_lang = None, opt_includeFallback = None\<rparr>
       (registerTranslation [en_hello, fr_hello] page) =
     (Inr True, registerTranslation [en_hello, fr_hello] page)"
  using exists_tiers
    [where L = Intl_Locale and h = "host_of 1 ''fr''" and key = "''upload''"
       and options = "\<lparr>opt_lang = None, opt_includeFallback = None\<rparr>"
       and s = "registerTranslation [en_hello, fr_hello] page"]
  by (simp add: example_defs module_defs tag_defs)

text \<open>The claim as it is written, that \<open>exists\<close> always looks at the first two tiers and is a
  predicate, fails on a tag the parser rejects: asked about \<open>hello\<close> for \<open>en--GB\<close>, with \<open>en\<close>
  registered, \<open>exists\<close> answers neither true nor false.\<close>

theorem exists_tiers_counterexample:
  "has_term (translations_map (registerTranslation [en_hello] page) ''en'') ''hello''
   \<and> fst (LocalizeController_exists Intl_Locale (host_of 1 []) ''hello''
       \<lparr>opt_lang = Some ''en--GB'', opt_includeFallback = Some True\<rparr>
       (registerTranslation [en_hello] page)) = Inl RangeError
   \<and> fst (LocalizeController_exists Intl_Locale (host_of 1 []) ''hello''
       \<lparr>opt_lang = Some ''en--GB'', opt_includeFallback = Some True\<rparr>
       (registerTranslation [en_hello] page)) \<noteq> Inr True
   \<and> fst (LocalizeController_exists Intl_Locale (host_of 1 []) ''hello''
       \<lparr>opt_lang = Some ''en--GB'', opt_includeFallback = Some True\<rparr>
       (registerTranslation [en_hello] page)) \<noteq> Inr False"
  by (simp add: example_defs module_defs tag_defs)

text \<open>
  C9. A host that has been disconnected is no longer in \<open>connectedElements\<close>, and as long as
  it is not connected again nothing calls its \<open>requestUpdate\<close>: whatever registrations,
  updates (by hand or from the observer of the root element), attribute changes and
  connections or disconnections of other hosts follow, the host stays out of the set, the
  calls of \<open>requestUpdate\<close> made before are still the beginning of the record, and none of
  the calls made since is on the host.
\<close>

theorem detach_correctness:
  assumes "\<not> list_ex (connects (host_id h)) evs"
  shows "host_id h \<notin> set (connectedElements (hostDisconnected h s))
       \<and> host_id h \<notin> set (connectedElements (run evs (hostDisconnected h s)))
       \<and> take (length (requested s)) (requested (run evs (hostDisconnected h s))) = requested s
       \<and> host_id h \<notin> set (drop (length (requested s)) (requested (run evs (hostDisconnected h s))))"
proof -
  have a: "host_id h \<notin> set (connectedElements (hostDisconnected h s))"
    by (simp add: hostDisconnected_def)
  have r: "requested (hostDisconnected h s) = requested s"
    by (simp add: hostDisconnected_def)
  from run_detached [OF a assms] r a show ?thesis
    by auto
qed

text \<open>Three hosts are connected and updated once; the second is disconnected; a
  registration, a change of \<open><html lang>\<close> and the update that follows it reach the first and
  the third only.\<close>

theorem detach_correctness_witness:
  "requested (run [HostConnected (host_of 1 []), HostConnected (host_of 2 []),
                   HostConnected (host_of 3 []), Update] page) = [1, 2, 3]
   \<and> \<not> list_ex (connects (host_id (host_of 2 [])))
         [RegisterTranslation [en_hello], SetHtmlLang ''fr'', Update, HostConnected (host_of 1 [])]
   \<and> connectedElements
        (run [RegisterTranslation [en_hello], SetHtmlLang ''fr'', Update, HostConnected (host_of 1 [])]
          (hostDisconnected (host_of 2 [])
            (run [HostConnected (host_of 1 []), HostConnected (host_of 2 []),
                  HostConnected (host_of 3 []), Update] page))) = [1, 3]
   \<and> requested
        (run [RegisterTranslation [en_hello], SetHtmlLang ''fr'', Update, HostConnected (host_of 1 [])]
          (hostDisconnected (host_of 2 [])
            (run [HostConnected (host_of 1 []), HostConnected (host_of 2 []),
                  HostConnected (host_of 3 []), Update] page))) = [1, 2, 3, 1, 3, 1, 3]"
proof -
  have n: "\<not> list_ex (connects (host_id (host_of 2 [])))
         [RegisterTranslation [en_hello], SetHtmlLang ''fr'', Update, HostConnected (host_of 1 [])]"
    by (simp add: host_of_def)
  from detach_correctness [OF n] n show ?thesis
    by (simp add: run_def host_of_def hostConnected_proj hostDisconnected_proj
          registerTranslation_requested update_requested page_proj)
qed

text \<open>
  C10, as amended. The sources of \<open>term\<close> and \<open>exists\<close> are tested for the truthiness of the
  value that the property read gives, not for the presence of the key. A source that holds
  the key with a falsy value (the empty string, \<open>0\<close>, \<open>false\<close>, \<open>null\<close>, \<open>undefined\<close>) is passed
  over and resolution goes on with the next tier: after the entry of \<open>G-R\<close> the entry of \<open>G\<close>,
  after it the fallback, after it the answer for a missing term; so an entry with a region
  cannot replace a term of the base language or of the fallback by the empty string. For a
  key that is none of \<open>$code\<close>, \<open>$name\<close>, \<open>$dir\<close> and not a property of \<open>Object.prototype\<close>, a
  translation that holds the key with a falsy value answers as the same translation
  without the key does, as a registry entry under any code and as the fallback, for the
  controller and for the top-level \<open>term\<close> of the 2.x sources.
\<close>

theorem falsy_value_falls_through:
  assumes "L (replace_underscores (lang h s)) = Some loc"
  shows "(let G = toLowerCase (language loc);
          R = (case region loc of None \<Rightarrow> [] | Some r \<Rightarrow> toLowerCase r);
          regional = translations_map s (G @ ''-'' @ R);
          base = translations_map s G;
          truthy_in = (\<lambda>source. case source of
                         Some t \<Rightarrow> truthy (get_prop t key) | None \<Rightarrow> False);
          pick = (\<lambda>source next.
                    case source of
                      Some t \<Rightarrow> if truthy (get_prop t key)
                                then render N (get_prop t key) args else next
                    | None \<Rightarrow> next);
          result = fst (LocalizeController_term L N h key args s);
          found = fst (LocalizeController_exists L h key
                         \<lparr>opt_lang = None, opt_includeFallback = incl\<rparr> s)
      in (regional \<noteq> None \<and> \<not> truthy_in regional \<longrightarrow>
            result = pick base (pick (fallback s) (Inr (JStr key)))
            \<and> found = Inr (truthy_in base \<or> (incl = Some True \<and> truthy_in (fallback s))))
       \<and> (\<not> truthy_in regional \<and> base \<noteq> None \<and> \<not> truthy_in base \<longrightarrow>
            result = pick (fallback s) (Inr (JStr key))
            \<and> found = Inr (incl = Some True \<and> truthy_in (fallback s)))
       \<and> (\<not> truthy_in regional \<and> \<not> truthy_in base
            \<and> fallback s \<noteq> None \<and> \<not> truthy_in (fallback s) \<longrightarrow>
            result = Inr (JStr key) \<and> found = Inr False))
     \<and> (tr_terms t key = Some v \<and> \<not> truthy v \<and> key \<notin> {''$code'', ''$name'', ''$dir''}
          \<and> key \<notin> set Object_prototype_methods \<and> key \<noteq> ''__proto__'' \<longrightarrow>
         (let t' = t\<lparr>tr_terms := (tr_terms t)(key := None)\<rparr>;
              with_value = s\<lparr>translations_map := (translations_map s)(c \<mapsto> t)\<rparr>;
              without = s\<lparr>translations_map := (translations_map s)(c \<mapsto> t')\<rparr>
          in fst (LocalizeController_term L N h key args with_value) =
               fst (LocalizeController_term L N h key args without)
           \<and> console (snd (LocalizeController_term L N h key args with_value)) =
               console (snd (LocalizeController_term L N h key args without))
           \<and> fst (LocalizeController_exists L h key options with_value) =
               fst (LocalizeController_exists L h key options without)
           \<and> fst (toplevel_term N tag key args with_value) =
               fst (toplevel_term N tag key args without)
           \<and> fst (LocalizeController_term L N h key args (s\<lparr>fallback := Some t\<rparr>)) =
               fst (LocalizeController_term L N h key args (s\<lparr>fallback := Some t'\<rparr>))
           \<and> console (snd (LocalizeController_term L N h key args (s\<lparr>fallback := Some t\<rparr>))) =
               console (snd (LocalizeController_term L N h key args (s\<lparr>fallback := Some t'\<rparr>)))
           \<and> fst (LocalizeController_exists L h key options (s\<lparr>fallback := Some t\<rparr>)) =
               fst (LocalizeController_exists L h key options (s\<lparr>fallback := Some t'\<rparr>))
           \<and> fst (toplevel_term N tag key args (s\<lparr>fallback := Some t\<rparr>)) =
               fst (toplevel_term N tag key args (s\<lparr>fallback := Some t'\<rparr>))))"
proof (rule conjI)
  show "let G = toLowerCase (language loc);
          R = (case region loc of None \<Rightarrow> [] | Some r \<Rightarrow> toLowerCase r);
          regional = translations_map s (G @ ''-'' @ R);
          base = translations_map s G;
          truthy_in = (\<lambda>source. case source of
                         Some t \<Rightarrow> truthy (get_prop t key) | None \<Rightarrow> False);
          pick = (\<lambda>source next.
                    case source of
                      Some t \<Rightarrow> if truthy (get_prop t key)
                                then render N (get_prop t key) args else next
                    | None \<Rightarrow> next);
          result = fst (LocalizeController_term L N h key args s);
          found = fst (LocalizeController_exists L h key
                         \<lparr>opt_lang = None, opt_includeFallback = incl\<rparr> s)
      in (regional \<noteq> None \<and> \<not> truthy_in regional \<longrightarrow>
            result = pick base (pick (fallback s) (Inr (JStr key)))
            \<and> found = Inr (truthy_in base \<or> (incl = Some True \<and> truthy_in (fallback s))))
       \<and> (\<not> truthy_in regional \<and> base \<noteq> None \<and> \<not> truthy_in base \<longrightarrow>
            result = pick (fallback s) (Inr (JStr key))
            \<and> found = Inr (incl = Some True \<and> truthy_in (fallback s)))
       \<and> (\<not> truthy_in regional \<and> \<not> truthy_in base
            \<and> fallback s \<noteq> None \<and> \<not> truthy_in (fallback s) \<longrightarrow>
            result = Inr (JStr key) \<and> found = Inr False)"
    by (rule falls_through [where L = L and h = h and s = s and loc = loc, OF assms])
next
  show "tr_terms t key = Some v \<and> \<not> truthy v \<and> key \<notin> {''$code'', ''$name'', ''$dir''}
          \<and> key \<notin> set Object_prototype_methods \<and> key \<noteq> ''__proto__'' \<longrightarrow>
         (let t' = t\<lparr>tr_terms := (tr_terms t)(key := None)\<rparr>;
              with_value = s\<lparr>translations_map := (translations_map s)(c \<mapsto> t)\<rparr>;
              without = s\<lparr>translations_map := (translations_map s)(c \<mapsto> t')\<rparr>
          in fst (LocalizeController_term L N h key args with_value) =
               fst (LocalizeController_term L N h key args without)
           \<and> console (snd (LocalizeController_term L N h key args with_value)) =
               console (snd (LocalizeController_term L N h key args without))
           \<and> fst (LocalizeController_exists L h key options with_value) =
               fst (LocalizeController_exists L h key options without)
           \<and> fst (toplevel_term N tag key args with_value) =
               fst (toplevel_term N tag key args without)
           \<and> fst (LocalizeController_term L N h key args (s\<lparr>fallback := Some t\<rparr>)) =
               fst (LocalizeController_term L N h key args (s\<lparr>fallback := Some t'\<rparr>))
           \<and> console (snd (LocalizeController_term L N h key args (s\<lparr>fallback := Some t\<rparr>))) =
               console (snd (LocalizeController_term L N h key args (s\<lparr>fallback := Some t'\<rparr>)))
           \<and> fst (LocalizeController_exists L h key options (s\<lparr>fallback := Some t\<rparr>)) =
               fst (LocalizeController_exists L h key options (s\<lparr>fallback := Some t'\<rparr>))
           \<and> fst (toplevel_term N tag key args (s\<lparr>fallback := Some t\<rparr>)) =
               fst (toplevel_term N tag key args (s\<lparr>fallback := Some t'\<rparr>)))"
  proof (intro impI, elim conjE)
    assume "tr_terms t key = Some v" "\<not> truthy v" "key \<notin> {''$code'', ''$name'', ''$dir''}"
      "key \<notin> set Object_prototype_methods" "key \<noteq> ''__proto__''"
    then show "let t' = t\<lparr>tr_terms := (tr_terms t)(key := None)\<rparr>;
              with_value = s\<lparr>translations_map := (translations_map s)(c \<mapsto> t)\<rparr>;
              without = s\<lparr>translations_map := (translations_map s)(c \<mapsto> t')\<rparr>
          in fst (LocalizeController_term L N h key args with_value) =
               fst (LocalizeController_term L N h key args without)
           \<and> console (snd (LocalizeController_term L N h key args with_value)) =
               console (snd (LocalizeController_term L N h key args without))
           \<and> fst (LocalizeController_exists L h key options with_value) =
               fst (LocalizeController_exists L h key options without)
           \<and> fst (toplevel_term N tag key args with_value) =
               fst (toplevel_term N tag key args without)
           \<and> fst (LocalizeController_term L N h key args (s\<lparr>fallback := Some t\<rparr>)) =
               fst (LocalizeController_term L N h key args (s\<lparr>fallback := Some t'\<rparr>))
           \<and> console (snd (LocalizeController_term L N h key args (s\<lparr>fallback := Some t\<rparr>))) =
               console (snd (LocalizeController_term L N h key args (s\<lparr>fallback := Some t'\<rparr>)))
           \<and> fst (LocalizeController_exists L h key options (s\<lparr>fallback := Some t\<rparr>)) =
               fst (LocalizeController_exists L h key options (s\<lparr>fallback := Some t'\<rparr>))
           \<and> fst (toplevel_term N tag key args (s\<lparr>fallback := Some t\<rparr>)) =
               fst (toplevel_term N tag key args (s\<lparr>fallback := Some t'\<rparr>))"
      by (rule falsy_as_absent)
  qed
qed

text \<open>With \<open>fr\<close> registered first (\<open>greet\<close> is \<open>Salut\<close>), then \<open>en\<close> (\<open>Hi\<close>) and an \<open>en-GB\<close> that
  defines \<open>greet\<close> as the empty string, a host in \<open>en-GB\<close> gets the \<open>Hi\<close> of \<open>en\<close> and \<open>greet\<close>
  exists without the fallback; without \<open>en\<close> it gets the \<open>Salut\<close> of the fallback, and \<open>greet\<close>
  exists only with the fallback included.\<close>

theorem falsy_value_falls_through_witness:
  "get_prop en_gb_blank ''greet'' = JStr []
   \<and> translations_map (registerTranslation [fr_hello, en_hello, en_gb_blank] page) ''en-gb'' =
       Some en_gb_blank
   \<and> fst (LocalizeController_term Intl_Locale Object_prototype_call (host_of 1 ''en-GB'')
        ''greet'' [] (registerTranslation [fr_hello, en_hello, en_gb_blank] page)) =
       Inr (JStr ''Hi'')
   \<and> fst (LocalizeController_exists Intl_Locale (host_of 1 ''en-GB'') ''greet''
        \<lparr>opt_lang = None, opt_includeFallback = None\<rparr>
        (registerTranslation [fr_hello, en_hello, en_gb_blank] page)) = Inr True
   \<and> fst (LocalizeController_term Intl_Locale Object_prototype_call (host_of 1 ''en-GB'')
        ''greet'' [] (registerTranslation [fr_hello, en_gb_blank] page)) =
       Inr (JStr ''Salut'')
   \<and> fst (LocalizeController_exists Intl_Locale (host_of 1 ''en-GB'') ''greet''
        \<lparr>opt_lang = None, opt_includeFallback = None\<rparr>
        (registerTranslation [fr_hello, en_gb_blank] page)) = Inr False
   \<and> fst (LocalizeController_exists Intl_Locale (host_of 1 ''en-GB'') ''greet''
        \<lparr>opt_lang = None, opt_includeFallback = Some True\<rparr>
        (registerTranslation [fr_hello, en_gb_blank] page)) = Inr True"
proof -
  have p: "Intl_Locale (replace_underscores
       (lang (host_of 1 ''en-GB'') (registerTranslation [fr_hello, en_hello, en_gb_blank] page))) =
     Some \<lparr>language = ''en'', region = Some ''GB''\<rparr>"
    by (simp add: example_defs module_defs tag_defs)
  have r: "translations_map (registerTranslation [fr_hello, en_hello, en_gb_blank] page) =
      [''fr'' \<mapsto> fr_hello, ''en'' \<mapsto> en_hello, ''en-gb'' \<mapsto> en_gb_blank]"
    and f: "fallback (registerTranslation [fr_hello, en_hello, en_gb_blank] page) = Some fr_hello"
    by (simp_all add: example_defs module_defs tag_defs)
  have g: "get_prop en_gb_blank ''greet'' = JStr []" "get_prop en_hello ''greet'' = JStr ''Hi''"
    by (simp_all add: get_prop_def en_gb_blank_def en_hello_def)
  from falsy_value_falls_through
    [where L = Intl_Locale and N = Object_prototype_call and h = "host_of 1 ''en-GB''"
       and s = "registerTranslation [fr_hello, en_hello, en_gb_blank] page" and args = "[]"
       and key = "''greet''" and incl = None, OF p]
  have "fst (LocalizeController_term Intl_Locale Object_prototype_call (host_of 1 ''en-GB'')
        ''greet'' [] (registerTranslation [fr_hello, en_hello, en_gb_blank] page)) =
       Inr (JStr ''Hi'')"
    and "fst (LocalizeController_exists Intl_Locale (host_of 1 ''en-GB'') ''greet''
        \<lparr>opt_lang = None, opt_includeFallback = None\<rparr>
        (registerTranslation [fr_hello, en_hello, en_gb_blank] page)) = Inr True"
    unfolding r f
    by (simp_all add: Let_def g render_def toLowerCase_def lower_char_def)
  then show ?thesis
    by (simp add: example_defs module_defs tag_defs)
qed

text \<open>The claim as it is written, that a falsy value is treated as if the key were absent,
  fails for a key that \<open>Object.prototype\<close> holds: with an \<open>en-GB\<close> translation whose own
  \<open>toString\<close> is the empty string the term is missing, and with the same translation without
  that property the inherited method is found and called.\<close>

theorem falsy_value_falls_through_counterexample:
  "tr_terms en_gb_own_toString ''toString'' = Some (JStr [])
   \<and> fst (LocalizeController_term Intl_Locale Object_prototype_call (host_of 1 ''en-GB'')
        ''toString'' [] (registerTranslation [en_gb_own_toString] page)) = Inr (JStr ''toString'')
   \<and> fst (LocalizeController_term Intl_Locale Object_prototype_call (host_of 1 ''en-GB'')
        ''toString'' []
        (registerTranslation
           [en_gb_own_toString\<lparr>tr_terms := (tr_terms en_gb_own_toString)(''toString'' := None)\<rparr>]
           page)) = Inr (JStr ''[object Undefined]'')
   \<and> fst (LocalizeController_exists Intl_Locale (host_of 1 ''en-GB'') ''toString''
        \<lparr>opt_lang = None, opt_includeFallback = None\<rparr>
        (registerTranslation [en_gb_own_toString] page)) = Inr False
   \<and> fst (LocalizeController_exists Intl_Locale (host_of 1 ''en-GB'') ''toString''
        \<lparr>opt_lang = None, opt_includeFallback = None\<rparr>
        (registerTranslation
           [en_gb_own_toString\<lparr>tr_terms := (tr_terms en_gb_own_toString)(''toString'' := None)\<rparr>]
           page)) = Inr True"
  by (simp add: example_defs module_defs tag_defs)

end
